theory Spec2Isabelle
  imports Complex_Main "HOL-Library.Monad_Syntax"
begin

section \<open>JavaScript numbers\<close>

text \<open>
  A number of JavaScript is an IEEE 754 double, and every arithmetic operation rounds its
  exact result to the nearest double, ties to the even mantissa. A finite double is
  modelled by the real number it denotes, and the rounding is \<open>fl\<close>: a product, a quotient
  or a sum of the source is \<open>fl\<close> of the exact one, and a decimal literal such as \<^verbatim>\<open>0.95\<close>
  is \<open>fl\<close> of its value. \<^verbatim>\<open>NaN\<close> and the infinities are not numbers of the model: a result
  of magnitude \<open>2^1024\<close> or more is outside it.

  \<open>roundEven\<close> rounds to the nearest integer, ties to even. \<open>expo x\<close> is the binary
  exponent of a positive \<open>x\<close>: \<open>2^(expo x) \<le> x < 2^(expo x + 1)\<close>. A double has 53
  significant bits, and no exponent below that of the subnormal numbers.
\<close>

definition roundEven :: "real \<Rightarrow> int" where
  "roundEven x =
     (let f = \<lfloor>x\<rfloor>; d = x - of_int f
      in if d < 1 / 2 then f else if d > 1 / 2 then f + 1 else if even f then f else f + 1)"

function expo :: "real \<Rightarrow> int" where
  "expo x =
     (if x \<le> 0 then 0
      else if x \<ge> 2 then expo (x / 2) + 1
      else if x < 1 then expo (x * 2) - 1
      else 0)"
  by pat_completeness auto
termination
proof (relation "measure (\<lambda>x. nat \<bar>\<lfloor>log 2 x\<rfloor>\<bar>)")
  show "wf (measure (\<lambda>x. nat \<bar>\<lfloor>log 2 x\<rfloor>\<bar>))" by simp
next
  fix x :: real
  assume a: "\<not> x \<le> 0" "2 \<le> x"
  define n where "n = \<lfloor>log 2 x\<rfloor>"
  from a have "log 2 (x / 2) = log 2 x - 1" by (simp add: log_divide)
  then have 1: "\<lfloor>log 2 (x / 2)\<rfloor> = n - 1" unfolding n_def by simp
  from a have "1 \<le> log 2 x" by (simp add: le_log_iff)
  then have 2: "1 \<le> n" unfolding n_def by (simp add: le_floor_iff)
  from 2 have "nat \<bar>n - 1\<bar> < nat \<bar>n\<bar>" by linarith
  then show "(x / 2, x) \<in> measure (\<lambda>x. nat \<bar>\<lfloor>log 2 x\<rfloor>\<bar>)"
    unfolding in_measure 1 n_def [symmetric] .
next
  fix x :: real
  assume a: "\<not> x \<le> 0" "\<not> 2 \<le> x" "x < 1"
  define n where "n = \<lfloor>log 2 x\<rfloor>"
  from a have "log 2 (x * 2) = log 2 x + 1" by (simp add: log_mult)
  then have 1: "\<lfloor>log 2 (x * 2)\<rfloor> = n + 1" unfolding n_def by simp
  from a have "log 2 x < 0" by simp
  then have 2: "n < 0" unfolding n_def by (simp add: floor_less_iff)
  from 2 have "nat \<bar>n + 1\<bar> < nat \<bar>n\<bar>" by linarith
  then show "(x * 2, x) \<in> measure (\<lambda>x. nat \<bar>\<lfloor>log 2 x\<rfloor>\<bar>)"
    unfolding in_measure 1 n_def [symmetric] .
qed

declare expo.simps [simp del]

definition fl :: "real \<Rightarrow> real" where
  "fl x =
     (if x = 0 then 0
      else let e = max (expo \<bar>x\<bar> - 52) (- 1074)
           in of_int (roundEven (x / 2 powi e)) * 2 powi e)"

section \<open>JavaScript strings\<close>

text \<open>
  A JavaScript string is a sequence of UTF-16 code units; a code unit is modelled by its
  number. For the ASCII texts below a code unit is the byte of the character, so
  \<open>str ''LIMIT''\<close> is the JavaScript string \<^verbatim>\<open>"LIMIT"\<close>.
\<close>

type_synonym jsstring = "nat list"

definition str :: "string \<Rightarrow> jsstring" where
  "str cs = map of_char cs"

text \<open>
  The class \<^verbatim>\<open>\s\<close> of a regular expression and the characters removed by
  \<^verbatim>\<open>String.prototype.trim\<close> are the same set: WhiteSpace and LineTerminator of
  ECMAScript (U+0009 to U+000D, U+0020, U+00A0, U+1680, U+2000 to U+200A, U+2028,
  U+2029, U+202F, U+205F, U+3000, U+FEFF).
\<close>

definition isSpace :: "nat \<Rightarrow> bool" where
  "isSpace c \<longleftrightarrow>
     (9 \<le> c \<and> c \<le> 13) \<or> c = 32 \<or> c = 160 \<or> c = 5760 \<or> (8192 \<le> c \<and> c \<le> 8202)
     \<or> c = 8232 \<or> c = 8233 \<or> c = 8239 \<or> c = 8287 \<or> c = 12288 \<or> c = 65279"

definition isDigit :: "nat \<Rightarrow> bool" where
  "isDigit c \<longleftrightarrow> 48 \<le> c \<and> c \<le> 57"

text \<open>The class \<^verbatim>\<open>\w\<close>, which decides \<^verbatim>\<open>\b\<close>: letters, digits and underscore of ASCII.\<close>

definition isWordChar :: "nat \<Rightarrow> bool" where
  "isWordChar c \<longleftrightarrow>
     (48 \<le> c \<and> c \<le> 57) \<or> (65 \<le> c \<and> c \<le> 90) \<or> (97 \<le> c \<and> c \<le> 122) \<or> c = 95"

text \<open>
  Case folding of the flag \<^verbatim>\<open>i\<close> (without \<^verbatim>\<open>u\<close>): Canonicalize upper-cases a code
  unit, but never maps a code unit of 128 or more to one below 128. Every literal of the
  patterns below is ASCII, so comparing the fold of ASCII alone decides each match: a
  code unit outside ASCII is left as it is and equals no ASCII literal.
\<close>

definition canonicalize :: "nat \<Rightarrow> nat" where
  "canonicalize c = (if 97 \<le> c \<and> c \<le> 122 then c - 32 else c)"

definition trimStart :: "jsstring \<Rightarrow> jsstring" where
  "trimStart s = dropWhile isSpace s"

definition trimEnd :: "jsstring \<Rightarrow> jsstring" where
  "trimEnd s = rev (dropWhile isSpace (rev s))"

definition trim :: "jsstring \<Rightarrow> jsstring" where
  "trim s = trimEnd (trimStart s)"

definition endsWith :: "jsstring \<Rightarrow> nat \<Rightarrow> bool" where
  "endsWith s c \<longleftrightarrow> s \<noteq> [] \<and> last s = c"

text \<open>
  \<^verbatim>\<open>`${n}`\<close> and \<^verbatim>\<open>n.toString()\<close> for a number that is a natural number below \<open>2^53\<close>, where
  every natural number is a double of its own: its decimal digits. (From \<open>2^53\<close> on not
  every natural number is a double, and from \<open>10^21\<close> on a number prints with an
  exponent; the properties below that read these digits bound their numbers by \<open>2^53\<close>.)
\<close>

fun toString :: "nat \<Rightarrow> jsstring" where
  "toString n = (if n < 10 then [48 + n] else toString (n div 10) @ [48 + n mod 10])"

declare toString.simps [simp del]

text \<open>
  \<^verbatim>\<open>parseInt\<close> is only applied to the text of a group \<^verbatim>\<open>(\d+)\<close>: a non-empty run of
  decimal digits, read in base ten. Its result is a number: the double nearest to the
  integer that the digits denote, which is again an integer.
\<close>

definition parseInt :: "jsstring \<Rightarrow> nat" where
  "parseInt ds = nat \<lfloor>fl (real (foldl (\<lambda>a d. 10 * a + (d - 48)) 0 ds))\<rfloor>"

section \<open>Regular expressions of the source\<close>

text \<open>
  The fragment of the pattern language that \<^verbatim>\<open>query-limiter.ts\<close> uses. Repetition is
  only ever applied to a character class there. All patterns carry the flag \<^verbatim>\<open>i\<close>.
\<close>

datatype cclass = Space | Digit

datatype regex =
    Eps
  | Lit nat
  | Star cclass
  | Plus cclass
  | WordB
  | Bol
  | Eol
  | Seq regex regex
  | Alt regex regex
  | Opt regex
  | Grp nat regex

fun inClass :: "cclass \<Rightarrow> nat \<Rightarrow> bool" where
  "inClass Space c = isSpace c"
| "inClass Digit c = isDigit c"

text \<open>
  A matcher state: the text before the position (reversed), the text from the position
  on, and the capture groups set so far.
\<close>

type_synonym mstate = "jsstring \<times> jsstring \<times> (nat \<rightharpoonup> jsstring)"

text \<open>
  \<open>spans P p s\<close>: every way to consume a run of \<open>P\<close> characters at the head of \<open>s\<close>, the
  longest first (a greedy quantifier gives characters back one at a time).
\<close>

fun spans :: "(nat \<Rightarrow> bool) \<Rightarrow> jsstring \<Rightarrow> jsstring \<Rightarrow> (jsstring \<times> jsstring) list" where
  "spans P p [] = [(p, [])]"
| "spans P p (x # xs) = (if P x then spans P (x # p) xs else []) @ [(p, x # xs)]"

definition star :: "cclass \<Rightarrow> mstate \<Rightarrow> mstate list" where
  "star k = (\<lambda>(p, s, g). map (\<lambda>(p', s'). (p', s', g)) (spans (inClass k) p s))"

definition one :: "cclass \<Rightarrow> mstate \<Rightarrow> mstate list" where
  "one k = (\<lambda>(p, s, g). case s of [] \<Rightarrow> [] | x # xs \<Rightarrow> if inClass k x then [(x # p, xs, g)] else [])"

definition atWord :: "jsstring \<Rightarrow> bool" where
  "atWord s = (case s of [] \<Rightarrow> False | x # _ \<Rightarrow> isWordChar x)"

text \<open>
  \<open>ms r st\<close>: the states in which a match of \<open>r\<close> that starts in \<open>st\<close> can end, in the
  order in which the backtracking matcher of ECMAScript tries them. The head of the list
  is the match the engine reports when nothing follows \<open>r\<close>.
\<close>

fun ms :: "regex \<Rightarrow> mstate \<Rightarrow> mstate list" where
  "ms Eps st = [st]"
| "ms (Lit c) (p, s, g) =
     (case s of [] \<Rightarrow> []
      | x # xs \<Rightarrow> if canonicalize x = canonicalize c then [(x # p, xs, g)] else [])"
| "ms (Star k) st = star k st"
| "ms (Plus k) st = concat (map (star k) (one k st))"
| "ms WordB (p, s, g) = (if atWord p \<noteq> atWord s then [(p, s, g)] else [])"
| "ms Bol (p, s, g) = (if p = [] then [(p, s, g)] else [])"
| "ms Eol (p, s, g) = (if s = [] then [(p, s, g)] else [])"
| "ms (Seq a b) st = concat (map (ms b) (ms a st))"
| "ms (Alt a b) st = ms a st @ ms b st"
| "ms (Opt a) st = ms a st @ [st]"
| "ms (Grp n a) (p, s, g) =
     map (\<lambda>(p', s', g'). (p', s', g'(n \<mapsto> take (length s - length s') s))) (ms a (p, s, g))"

fun lits :: "jsstring \<Rightarrow> regex" where
  "lits [] = Eps"
| "lits [c] = Lit c"
| "lits (c # cs) = Seq (Lit c) (lits cs)"

fun seqs :: "regex list \<Rightarrow> regex" where
  "seqs [] = Eps"
| "seqs [r] = r"
| "seqs (r # rs) = Seq r (seqs rs)"

text \<open>
  \<^verbatim>\<open>RegExp.prototype.exec\<close> without the flag \<^verbatim>\<open>g\<close>: the start positions are tried from the
  left, the end of the text included; the result is the index of the first position with
  a match, and the match found there.
\<close>

fun execAt :: "regex \<Rightarrow> jsstring \<Rightarrow> jsstring \<Rightarrow> (nat \<times> mstate) option" where
  "execAt r p [] = (case ms r (p, [], Map.empty) of [] \<Rightarrow> None | m # _ \<Rightarrow> Some (length p, m))"
| "execAt r p (x # xs) =
     (case ms r (p, x # xs, Map.empty) of
        [] \<Rightarrow> execAt r (x # p) xs
      | m # _ \<Rightarrow> Some (length p, m))"

definition exec :: "regex \<Rightarrow> jsstring \<Rightarrow> (nat \<times> mstate) option" where
  "exec r s = execAt r [] s"

definition test :: "regex \<Rightarrow> jsstring \<Rightarrow> bool" where
  "test r s \<longleftrightarrow> exec r s \<noteq> None"

text \<open>\<^verbatim>\<open>s.replace(r, '')\<close> for a pattern without the flag \<^verbatim>\<open>g\<close>: the first match is cut out.\<close>

definition replaceEmpty :: "regex \<Rightarrow> jsstring \<Rightarrow> jsstring" where
  "replaceEmpty r s = (case exec r s of None \<Rightarrow> s | Some (i, (p', s', g)) \<Rightarrow> take i s @ s')"

subsection \<open>The patterns\<close>

text \<open>\<^verbatim>\<open>/^\s*SELECT\b/i\<close> and its siblings.\<close>

definition leading :: "regex \<Rightarrow> regex" where
  "leading kw = seqs [Bol, Star Space, kw, WordB]"

definition reSELECT :: regex where
  "reSELECT = leading (lits (str ''SELECT''))"

definition reINSERT :: regex where
  "reINSERT = leading (lits (str ''INSERT''))"

definition reUPDATE :: regex where
  "reUPDATE = leading (lits (str ''UPDATE''))"

definition reDELETE :: regex where
  "reDELETE = leading (lits (str ''DELETE''))"

text \<open>\<^verbatim>\<open>/^\s*(CREATE|ALTER|DROP|TRUNCATE)\b/i\<close>\<close>

definition reDDL :: regex where
  "reDDL = leading (Grp 1 (Alt (lits (str ''CREATE'')) (Alt (lits (str ''ALTER''))
             (Alt (lits (str ''DROP'')) (lits (str ''TRUNCATE''))))))"

definition reWITH :: regex where
  "reWITH = leading (lits (str ''WITH''))"

text \<open>\<^verbatim>\<open>/\bSELECT\b/i\<close>\<close>

definition reAnySELECT :: regex where
  "reAnySELECT = seqs [WordB, lits (str ''SELECT''), WordB]"

text \<open>\<^verbatim>\<open>\s*;?\s*$\<close>, the end of each of the four patterns below.\<close>

definition reTail :: regex where
  "reTail = seqs [Star Space, Opt (Lit 59), Star Space, Eol]"

text \<open>\<^verbatim>\<open>/\bLIMIT\s+(\d+)(?:\s*,\s*(\d+)|\s+OFFSET\s+(\d+))?\s*;?\s*$/i\<close>\<close>

definition reLimit :: regex where
  "reLimit = seqs [WordB, lits (str ''LIMIT''), Plus Space, Grp 1 (Plus Digit),
     Opt (Alt (seqs [Star Space, Lit 44, Star Space, Grp 2 (Plus Digit)])
              (seqs [Plus Space, lits (str ''OFFSET''), Plus Space, Grp 3 (Plus Digit)])),
     reTail]"

text \<open>\<^verbatim>\<open>/\bOFFSET\s+(\d+)\s*;?\s*$/i\<close>\<close>

definition reOffsetOnly :: regex where
  "reOffsetOnly = seqs [WordB, lits (str ''OFFSET''), Plus Space, Grp 1 (Plus Digit), reTail]"

text \<open>\<^verbatim>\<open>/\bLIMIT\s+\d+\s*,\s*\d+\s*;?\s*$/i\<close>\<close>

definition reStripMySQL :: regex where
  "reStripMySQL = seqs [WordB, lits (str ''LIMIT''), Plus Space, Plus Digit,
     Star Space, Lit 44, Star Space, Plus Digit, reTail]"

text \<open>\<^verbatim>\<open>/\bLIMIT\s+\d+(?:\s+OFFSET\s+\d+)?\s*;?\s*$/i\<close>\<close>

definition reStripStandard :: regex where
  "reStripStandard = seqs [WordB, lits (str ''LIMIT''), Plus Space, Plus Digit,
     Opt (seqs [Plus Space, lits (str ''OFFSET''), Plus Space, Plus Digit]),
     reTail]"

section \<open>The statement classifier: \<^verbatim>\<open>analyzeQuery\<close>\<close>

datatype QueryType = SELECT | INSERT | UPDATE | DELETE | DDL | OTHER

text \<open>
  \<^verbatim>\<open>ParsedQueryInfo\<close>. The fields \<^verbatim>\<open>isUnion\<close> and \<^verbatim>\<open>hasSubquery\<close> are left out: they are
  computed from the upper-cased text, which takes the case tables of the runtime, and
  neither \<^verbatim>\<open>applyQueryLimit\<close> nor any property below reads them.
\<close>

record ParsedQueryInfo =
  type :: QueryType
  hasLimit :: bool
  existingLimit :: "nat option"
  hasOffset :: bool
  existingOffset :: "nat option"
  hasCTE :: bool

definition queryType :: "jsstring \<Rightarrow> QueryType" where
  "queryType trimmed =
     (if test reSELECT trimmed then SELECT
      else if test reINSERT trimmed then INSERT
      else if test reUPDATE trimmed then UPDATE
      else if test reDELETE trimmed then DELETE
      else if test reDDL trimmed then DDL
      else if test reWITH trimmed \<and> test reAnySELECT trimmed then SELECT
      else OTHER)"

text \<open>The capture group \<open>n\<close> of a match result, \<^verbatim>\<open>undefined\<close> as \<open>None\<close>.\<close>

definition group :: "(nat \<times> mstate) \<Rightarrow> nat \<Rightarrow> jsstring option" where
  "group m n = (case m of (i, (p, s, g)) \<Rightarrow> g n)"

definition analyzeQuery :: "jsstring \<Rightarrow> ParsedQueryInfo" where
  "analyzeQuery sql =
     (let trimmed = trim sql;
          limitMatch = exec reLimit trimmed;
          hasLimit = (limitMatch \<noteq> None);
          (existingLimit, existingOffset) =
            (case limitMatch of
               None \<Rightarrow> (None, None)
             | Some m \<Rightarrow>
                 (if group m 2 \<noteq> None
                  then (map_option parseInt (group m 2), map_option parseInt (group m 1))
                  else (map_option parseInt (group m 1),
                        (case group m 3 of
                           None \<Rightarrow> None
                         | Some d \<Rightarrow> if d \<noteq> [] then Some (parseInt d) else None))));
          offsetOnlyMatch = (if hasLimit then None else exec reOffsetOnly trimmed);
          hasOffset = (if hasLimit then existingOffset \<noteq> None else offsetOnlyMatch \<noteq> None);
          existingOffset =
            (case offsetOnlyMatch of
               None \<Rightarrow> existingOffset
             | Some m \<Rightarrow> map_option parseInt (group m 1))
      in \<lparr> type = queryType trimmed,
           hasLimit = hasLimit,
           existingLimit = existingLimit,
           hasOffset = hasOffset,
           existingOffset = existingOffset,
           hasCTE = test reWITH trimmed \<rparr>)"

section \<open>The limit rewriter: \<^verbatim>\<open>applyQueryLimit\<close>\<close>

record LimitedQueryResult =
  sql :: jsstring
  wasLimited :: bool
  originalLimit :: "nat option"
  appliedLimit :: nat
  appliedOffset :: nat

text \<open>
  \<^verbatim>\<open>x || d\<close> for a number \<open>x\<close> (the models below hold no \<^verbatim>\<open>NaN\<close>, so zero is the only
  falsy number), and for a field that may be \<^verbatim>\<open>undefined\<close>.
\<close>

definition orElse :: "'a::zero \<Rightarrow> 'a \<Rightarrow> 'a" where
  "orElse x d = (if x = 0 then d else x)"

definition orDefault :: "'a::zero option \<Rightarrow> 'a \<Rightarrow> 'a" where
  "orDefault x d = (case x of None \<Rightarrow> d | Some v \<Rightarrow> orElse v d)"

definition limitClause :: "nat \<Rightarrow> nat \<Rightarrow> jsstring" where
  "limitClause limit offset =
     (if offset > 0
      then str ''LIMIT '' @ toString limit @ str '' OFFSET '' @ toString offset
      else str ''LIMIT '' @ toString limit)"

text \<open>
  The numbers \<^verbatim>\<open>limit\<close> and \<^verbatim>\<open>offset\<close> are natural numbers (the \<^verbatim>\<open>u64\<close> of the specification);
  \<^verbatim>\<open>options.forceLimit\<close>, false when absent, is the last argument.
\<close>

definition applyQueryLimit :: "jsstring \<Rightarrow> nat \<Rightarrow> nat \<Rightarrow> bool \<Rightarrow> LimitedQueryResult" where
  "applyQueryLimit query limit offset forceLimit =
     (let info = analyzeQuery query in
      if type info \<noteq> SELECT then
        \<lparr> sql = query, wasLimited = False, originalLimit = None,
          appliedLimit = 0, appliedOffset = 0 \<rparr>
      else if hasLimit info \<and> \<not> forceLimit then
        \<lparr> sql = query, wasLimited = False, originalLimit = existingLimit info,
          appliedLimit = orDefault (existingLimit info) 0,
          appliedOffset = orDefault (existingOffset info) 0 \<rparr>
      else
        let modifiedSql = trim query;
            modifiedSql =
              (if hasLimit info \<and> forceLimit
               then trim (replaceEmpty reStripStandard (trim (replaceEmpty reStripMySQL modifiedSql)))
               else modifiedSql);
            hasSemicolon = endsWith modifiedSql 59;
            modifiedSql = (if hasSemicolon then trim (butlast modifiedSql) else modifiedSql);
            modifiedSql = modifiedSql @ str '' '' @ limitClause limit offset;
            modifiedSql = (if hasSemicolon then modifiedSql @ str '';'' else modifiedSql)
        in \<lparr> sql = modifiedSql, wasLimited = True, originalLimit = existingLimit info,
             appliedLimit = limit, appliedOffset = offset \<rparr>)"

section \<open>Numbers and their text\<close>

text \<open>
  Row counts, block counts and loop counts are natural numbers (the \<^verbatim>\<open>u64\<close> fields of the
  specification): below \<open>2^53\<close> they and their sums are doubles of their own. Times and
  costs are the reals that their doubles denote.

  A division is a partial operation of the model: \<open>None\<close> stands for a division by zero,
  where JavaScript yields \<^verbatim>\<open>NaN\<close> or an infinity. Otherwise the quotient is rounded.
\<close>

definition jsDivide :: "real \<Rightarrow> real \<Rightarrow> real option" where
  "jsDivide a b = (if b = 0 then None else Some (fl (a / b)))"

text \<open>\<^verbatim>\<open>s || d\<close> for a string field that may be \<^verbatim>\<open>undefined\<close>: the empty string is falsy.\<close>

definition orString :: "jsstring option \<Rightarrow> jsstring \<Rightarrow> jsstring" where
  "orString x d = (case x of None \<Rightarrow> d | Some v \<Rightarrow> if v = [] then d else v)"

text \<open>\<^verbatim>\<open>s.includes(t)\<close>\<close>

fun jsIncludes :: "jsstring \<Rightarrow> jsstring \<Rightarrow> bool" where
  "jsIncludes [] t = (t = [])"
| "jsIncludes (x # xs) t = (take (length t) (x # xs) = t \<or> jsIncludes xs t)"

text \<open>
  \<^verbatim>\<open>x.toFixed(f)\<close> for a double \<open>x\<close> below \<open>10^21\<close>: the integer \<open>n\<close> with \<open>n / 10^f\<close> nearest to
  the exact value \<open>|x|\<close>, the larger one at a tie, written with \<open>f\<close> digits after the point
  and a sign for \<open>x < 0\<close>.
\<close>

definition toFixed :: "nat \<Rightarrow> real \<Rightarrow> jsstring" where
  "toFixed f x =
     (let n = nat \<lfloor>\<bar>x\<bar> * 10 ^ f + 1 / 2\<rfloor>;
          m = toString n;
          m = (if length m \<le> f then replicate (f + 1 - length m) 48 @ m else m);
          k = length m;
          m = (if f \<noteq> 0 then take (k - f) m @ str ''.'' @ drop (k - f) m else m)
      in (if x < 0 then str ''-'' @ m else m))"

section \<open>The plan analyzer: \<^verbatim>\<open>analyzePlan\<close> of \<^verbatim>\<open>VisualExplain.tsx\<close>\<close>

text \<open>
  \<^verbatim>\<open>ExplainPlanNode\<close>, with the fields that the analyzer reads (\<^verbatim>\<open>Filter\<close>, \<^verbatim>\<open>Index Name\<close> and
  the nested \<^verbatim>\<open>Plan\<close> are never read by it). Every field is optional.
\<close>

datatype ExplainPlanNode = ExplainPlanNode
  (Node_Type: "jsstring option")
  (Actual_Rows: "nat option")
  (Plan_Rows: "nat option")
  (Actual_Total_Time: "real option")
  (Total_Cost: "real option")
  (Shared_Hit_Blocks: "nat option")
  (Shared_Read_Blocks: "nat option")
  (Relation_Name: "jsstring option")
  (Actual_Loops: "nat option")
  (Plans: "ExplainPlanNode list option")

record ExplainPlanResult =
  Plan :: "ExplainPlanNode option"
  Execution_Time :: "real option"
  Planning_Time :: "real option"

text \<open>The strings \<^verbatim>\<open>'good'\<close>, \<^verbatim>\<open>'warning'\<close>, \<^verbatim>\<open>'critical'\<close> and \<^verbatim>\<open>'info'\<close>.\<close>

datatype Level = Good | Warning | Critical | Info

text \<open>\<^verbatim>\<open>Warning\<close>; its field \<^verbatim>\<open>type\<close> is \<open>severity\<close> here.\<close>

record Warning =
  severity :: Level
  title :: jsstring
  description :: jsstring
  node :: "jsstring option"

text \<open>\<^verbatim>\<open>Insight\<close>; its field \<^verbatim>\<open>value\<close> is \<open>shown\<close> here.\<close>

record Insight =
  label :: jsstring
  shown :: jsstring
  status :: Level

text \<open>The variables that \<^verbatim>\<open>analyzeNode\<close> updates while it walks the tree.\<close>

record Traversal =
  totalRows :: nat
  nodeCount :: nat
  bufferHits :: nat
  bufferReads :: nat
  warnings :: "Warning list"

record PlanAnalysis = Traversal +
  totalTime :: real
  planningTime :: real
  executionTime :: real
  totalCost :: real
  insights :: "Insight list"

definition formatNumber :: "real \<Rightarrow> jsstring option" where
  "formatNumber num =
     (if num \<ge> 1000000 then do { q \<leftarrow> jsDivide num 1000000; Some (toFixed 1 q @ str ''M'') }
      else if num \<ge> 1000 then do { q \<leftarrow> jsDivide num 1000; Some (toFixed 1 q @ str ''K'') }
      else Some (toFixed 0 num))"

text \<open>The unit of the last case is \<^verbatim>\<open>U+03BC\<close> followed by \<^verbatim>\<open>s\<close>.\<close>

definition formatTime :: "real \<Rightarrow> jsstring option" where
  "formatTime ms' =
     (if ms' \<ge> 1000 then do { q \<leftarrow> jsDivide ms' 1000; Some (toFixed 2 q @ str ''s'') }
      else if ms' \<ge> 1 then Some (toFixed 2 ms' @ str ''ms'')
      else Some (toFixed 0 (fl (ms' * 1000)) @ [956, 115]))"

definition push :: "Traversal \<Rightarrow> Warning \<Rightarrow> Traversal" where
  "push t w = t\<lparr>warnings := warnings t @ [w]\<rparr>"

definition children :: "ExplainPlanNode \<Rightarrow> ExplainPlanNode list" where
  "children n = (case Plans n of None \<Rightarrow> [] | Some cs \<Rightarrow> cs)"

lemma size_children [termination_simp]:
  "c \<in> set (children n) \<Longrightarrow> size c < size n"
  by (cases n) (auto simp: children_def split: option.splits dest!: size_list_estimation'[where f = size and y = "size c"] )

text \<open>
  \<^verbatim>\<open>analyzeNode\<close> updates the variables of the enclosing \<^verbatim>\<open>analyzePlan\<close>: they are passed in
  and returned. Its parameter \<^verbatim>\<open>depth\<close> is never read. The result is \<open>None\<close> when a division
  by zero happens on the way. The code unit 34 is the double quote.

  \<open>analyzeNodeBody\<close> is the body of \<^verbatim>\<open>analyzeNode\<close> up to the recursion into the children
  (lines 113 to 166); \<open>analyzeNode\<close> adds the \<^verbatim>\<open>forEach\<close> over \<^verbatim>\<open>node['Plans'] || []\<close>.
\<close>

definition analyzeNodeBody :: "ExplainPlanNode \<Rightarrow> Traversal \<Rightarrow> Traversal option" where
  "analyzeNodeBody n t0 = do {
     let t = t0\<lparr>nodeCount := nodeCount t0 + 1\<rparr>;
     let nodeType = orString (Node_Type n) [];
     let actualRows = orDefault (Actual_Rows n) 0;
     let planRows = orDefault (Plan_Rows n) 0;
     let actualTime = orDefault (Actual_Total_Time n) 0;
     let t = t\<lparr>totalRows := totalRows t + actualRows\<rparr>;
     let t = t\<lparr>bufferHits := bufferHits t + orDefault (Shared_Hit_Blocks n) 0\<rparr>;
     let t = t\<lparr>bufferReads := bufferReads t + orDefault (Shared_Read_Blocks n) 0\<rparr>;
     t \<leftarrow> (if jsIncludes nodeType (str ''Seq Scan'') \<and> actualRows > 10000
          then do {
            rows \<leftarrow> formatNumber (real actualRows);
            Some (push t \<lparr> severity = Warning, title = str ''Sequential Scan'',
              description = str ''Full table scan on '' @ [34]
                @ orString (Relation_Name n) (str ''table'') @ [34] @ str '' (''
                @ rows @ str '' rows). Consider adding an index.'',
              node = Some nodeType \<rparr>) }
          else Some t);
     t \<leftarrow> (if planRows > 0 \<and> actualRows > 0
          then do {
            ratio \<leftarrow> jsDivide (real actualRows) (real planRows);
            if ratio > 10 \<or> ratio < fl (1 / 10)
            then do {
              expected \<leftarrow> formatNumber (real planRows);
              got \<leftarrow> formatNumber (real actualRows);
              Some (push t \<lparr> severity = Info, title = str ''Estimate Mismatch'',
                description = str ''Expected '' @ expected @ str '' rows, got '' @ got
                  @ str ''. Statistics may be outdated.'',
                node = Some nodeType \<rparr>) }
            else Some t }
          else Some t);
     t \<leftarrow> (if jsIncludes nodeType (str ''Sort'') \<and> actualTime > 100
          then do {
            took \<leftarrow> formatTime actualTime;
            Some (push t \<lparr> severity = Warning, title = str ''Expensive Sort'',
              description = str ''Sort operation took '' @ took
                @ str ''. Consider adding an index for ordered access.'',
              node = Some nodeType \<rparr>) }
          else Some t);
     let actualLoops = (case Actual_Loops n of None \<Rightarrow> 1 | Some l \<Rightarrow> l);
     t \<leftarrow> (if jsIncludes nodeType (str ''Nested Loop'') \<and> actualLoops > 1000
          then do {
            times \<leftarrow> formatNumber (real actualLoops);
            Some (push t \<lparr> severity = Critical, title = str ''High Loop Count'',
              description = str ''Nested loop executed '' @ times
                @ str '' times. This could indicate an N+1 problem.'',
              node = Some nodeType \<rparr>) }
          else Some t);
     Some t }"

fun analyzeNode :: "ExplainPlanNode \<Rightarrow> Traversal \<Rightarrow> Traversal option" where
  "analyzeNode n t0 = do {
     t \<leftarrow> analyzeNodeBody n t0;
     fold (\<lambda>child acc. Option.bind acc (analyzeNode child)) (children n) (Some t) }"

declare analyzeNode.simps [simp del]

text \<open>The three insights that \<^verbatim>\<open>analyzePlan\<close> builds after the traversal.\<close>

definition cacheHitInsight :: "nat \<Rightarrow> nat \<Rightarrow> Insight option" where
  "cacheHitInsight hits reads = do {
     v \<leftarrow> (if hits + reads > 0
          then do {
            q \<leftarrow> jsDivide (real hits) (real (hits + reads));
            Some (toFixed 1 (fl (q * 100)) @ str ''%'') }
          else Some (str ''N/A''));
     ratio \<leftarrow> jsDivide (real hits) (real (orElse (hits + reads) 1));
     Some \<lparr> label = str ''Cache Hit Rate'', shown = v,
            status = (if ratio > fl (95 / 100) then Good else Warning) \<rparr> }"

definition operationsInsight :: "nat \<Rightarrow> Insight" where
  "operationsInsight count =
     \<lparr> label = str ''Operations'', shown = toString count,
       status = (if count > 20 then Warning else Good) \<rparr>"

definition executionInsight :: "real \<Rightarrow> Insight option" where
  "executionInsight time = do {
     v \<leftarrow> formatTime time;
     Some \<lparr> label = str ''Execution'', shown = v,
            status = (if time > 1000 then Critical else if time > 100 then Warning else Good) \<rparr> }"

text \<open>\<^verbatim>\<open>plan?.[0]\<close> and \<^verbatim>\<open>plan?.[0]?.Plan\<close>\<close>

definition firstResult :: "ExplainPlanResult list \<Rightarrow> ExplainPlanResult option" where
  "firstResult plan = (case plan of [] \<Rightarrow> None | r # _ \<Rightarrow> Some r)"

definition rootPlanOf :: "ExplainPlanResult list \<Rightarrow> ExplainPlanNode option" where
  "rootPlanOf plan = Option.bind (firstResult plan) Plan"

definition analyzePlan :: "ExplainPlanResult list \<Rightarrow> PlanAnalysis option" where
  "analyzePlan plan = do {
     let rootPlan = rootPlanOf plan;
     let executionTime =
       orDefault (Option.bind (firstResult plan) Execution_Time)
         (orDefault (Option.bind rootPlan Actual_Total_Time) 0);
     let planningTime = orDefault (Option.bind (firstResult plan) Planning_Time) 0;
     let totalCost = orDefault (Option.bind rootPlan Total_Cost) 0;
     let start = \<lparr> totalRows = 0, nodeCount = 0, bufferHits = 0, bufferReads = 0,
                   warnings = [] \<rparr>;
     t \<leftarrow> (case rootPlan of None \<Rightarrow> Some start | Some rootNode \<Rightarrow> analyzeNode rootNode start);
     i1 \<leftarrow> cacheHitInsight (bufferHits t) (bufferReads t);
     let i2 = operationsInsight (nodeCount t);
     i3 \<leftarrow> executionInsight executionTime;
     Some \<lparr> totalRows = totalRows t, nodeCount = nodeCount t, bufferHits = bufferHits t,
            bufferReads = bufferReads t, warnings = warnings t,
            totalTime = fl (executionTime + planningTime), planningTime = planningTime,
            executionTime = executionTime, totalCost = totalCost,
            insights = [i1, i2, i3] \<rparr> }"

section \<open>The cardinality estimator: \<^verbatim>\<open>POST\<close> of \<^verbatim>\<open>api/db/estimate/route.ts\<close>\<close>

definition isSelectQuery :: "jsstring \<Rightarrow> bool" where
  "isSelectQuery query \<longleftrightarrow> type (analyzeQuery query) = SELECT"

text \<open>
  \<^verbatim>\<open>QueryError\<close>, \<^verbatim>\<open>TimeoutError\<close> and \<^verbatim>\<open>isDatabaseError\<close> come from \<^verbatim>\<open>@/lib/db\<close>, which is not
  part of the sources at hand. A thrown value is modelled by what the \<^verbatim>\<open>catch\<close> block can
  observe of it: the outcome of its three tests, with no assumption on how they relate.
\<close>

record Thrown =
  instanceofQueryError :: bool
  instanceofTimeoutError :: bool
  isDatabaseError :: bool

text \<open>
  The rows of a query result, with the two columns that the handler reads: the column
  \<^verbatim>\<open>QUERY PLAN\<close> of \<^verbatim>\<open>EXPLAIN (FORMAT JSON)\<close> and the column \<^verbatim>\<open>rows\<close> of the \<^verbatim>\<open>EXPLAIN\<close> of MySQL.
  The latter is held as the outcome of \<^verbatim>\<open>parseInt(row.rows)\<close>: an integer, or \<open>None\<close> for
  \<^verbatim>\<open>NaN\<close>.
\<close>

record Row =
  QUERY_PLAN :: "ExplainPlanResult list option"
  parseInt_rows :: "int option"

record QueryResult =
  rows :: "Row list option"

type_synonym Provider = "jsstring \<Rightarrow> Thrown + QueryResult"

text \<open>The connection of the request body: its field \<^verbatim>\<open>type\<close> is \<open>dbType\<close> here.\<close>

record Connection =
  dbType :: jsstring

text \<open>
  The request body; a field is \<open>None\<close> when it is missing or falsy otherwise than by
  being an empty string.
\<close>

record Body =
  connection :: "Connection option"
  body_sql :: "jsstring option"

record RowEstimateResult =
  estimatedRows :: int
  isLargeResult :: bool
  warning :: "jsstring option"
  error :: "jsstring option"

datatype Response =
    Json RowEstimateResult
  | Status400 jsstring

definition LARGE_RESULT_THRESHOLD :: int where
  "LARGE_RESULT_THRESHOLD = 10000"

text \<open>\<^verbatim>\<open>n.toString()\<close> for an integer.\<close>

definition intToString :: "int \<Rightarrow> jsstring" where
  "intToString i = (if i < 0 then str ''-'' @ toString (nat (- i)) else toString (nat i))"

text \<open>\<^verbatim>\<open>formatNumber\<close> of \<^verbatim>\<open>route.ts\<close>.\<close>

definition formatNumber_route :: "int \<Rightarrow> jsstring" where
  "formatNumber_route num =
     (if num \<ge> 1000000 then toFixed 1 (fl (real_of_int num / 1000000)) @ str ''M''
      else if num \<ge> 1000 then toFixed 1 (fl (real_of_int num / 1000)) @ str ''K''
      else intToString num)"

text \<open>The \<^verbatim>\<open>catch\<close> block.\<close>

definition catch :: "Thrown \<Rightarrow> Response" where
  "catch e =
     (if instanceofQueryError e then
        Json \<lparr> estimatedRows = 0, isLargeResult = False, warning = None,
               error = Some (str ''Could not estimate row count'') \<rparr>
      else if instanceofTimeoutError e then
        Json \<lparr> estimatedRows = 0, isLargeResult = False, warning = None,
               error = Some (str ''Estimate timed out'') \<rparr>
      else if isDatabaseError e then
        Json \<lparr> estimatedRows = 0, isLargeResult = False, warning = None,
               error = Some (str ''Could not estimate row count'') \<rparr>
      else
        Json \<lparr> estimatedRows = 0, isLargeResult = False, warning = None, error = None \<rparr>)"

text \<open>
  \<^verbatim>\<open>result.rows?.[0]?.['QUERY PLAN']?.[0]?.Plan\<close> and then \<^verbatim>\<open>Plan['Plan Rows'] || 0\<close>.
\<close>

definition postgresRows :: "QueryResult \<Rightarrow> int" where
  "postgresRows result =
     (let row0 = Option.bind (rows result) (\<lambda>rs. case rs of [] \<Rightarrow> None | r # _ \<Rightarrow> Some r);
          entry0 = Option.bind (Option.bind row0 QUERY_PLAN)
                     (\<lambda>es. case es of [] \<Rightarrow> None | e # _ \<Rightarrow> Some e)
      in case Option.bind entry0 Plan of
           None \<Rightarrow> 0
         | Some p \<Rightarrow> int (orDefault (Plan_Rows p) 0))"

text \<open>The sum of \<^verbatim>\<open>parseInt(row.rows) || 0\<close> over the rows, when there is a row.\<close>

definition mysqlRows :: "QueryResult \<Rightarrow> int" where
  "mysqlRows result =
     (case rows result of
        None \<Rightarrow> 0
      | Some rs \<Rightarrow>
          if length rs > 0
          then foldl (\<lambda>sum row. sum + orDefault (parseInt_rows row) 0) 0 rs
          else 0)"

text \<open>
  The part of the handler between the provider and the comparison with the threshold:
  the estimate, or the value thrown by the delegated call.
\<close>

definition estimateRows :: "jsstring \<Rightarrow> Provider \<Rightarrow> jsstring \<Rightarrow> Thrown + int" where
  "estimateRows db provider query =
     (if db = str ''postgres'' then
        (case provider (str ''EXPLAIN (FORMAT JSON) '' @ query) of
           Inl e \<Rightarrow> Inl e
         | Inr result \<Rightarrow> Inr (postgresRows result))
      else if db = str ''mysql'' then
        (case provider (str ''EXPLAIN '' @ query) of
           Inl e \<Rightarrow> Inl e
         | Inr result \<Rightarrow> Inr (mysqlRows result))
      else if db = str ''sqlite'' then Inr 0
      else Inr 0)"

text \<open>
  The handler. Its three awaited calls can throw: reading the body, \<^verbatim>\<open>getOrCreateProvider\<close>
  and \<^verbatim>\<open>provider.query\<close>; the first is given by its outcome, the other two as functions.
\<close>

definition POST :: "(Connection \<Rightarrow> Thrown + Provider) \<Rightarrow> Thrown + Body \<Rightarrow> Response" where
  "POST getOrCreateProvider json =
     (case json of
        Inl e \<Rightarrow> catch e
      | Inr body \<Rightarrow>
          (case (connection body, body_sql body) of
             (Some conn, Some query) \<Rightarrow>
               if query = [] then Status400 (str ''Connection and SQL query are required'')
               else if \<not> isSelectQuery query then
                 Json \<lparr> estimatedRows = 0, isLargeResult = False, warning = None, error = None \<rparr>
               else
                 (case getOrCreateProvider conn of
                    Inl e \<Rightarrow> catch e
                  | Inr provider \<Rightarrow>
                      (case estimateRows (dbType conn) provider query of
                         Inl e \<Rightarrow> catch e
                       | Inr estimate \<Rightarrow>
                           let estimatedRows = estimate;
                               isLargeResult = (estimatedRows > LARGE_RESULT_THRESHOLD);
                               warning =
                                 (if isLargeResult
                                  then Some (str ''This query may return ~''
                                    @ formatNumber_route estimatedRows
                                    @ str '' rows. Consider adding filters or using LIMIT.'')
                                  else None)
                           in Json \<lparr> estimatedRows = estimatedRows,
                                     isLargeResult = isLargeResult,
                                     warning = warning, error = None \<rparr>))
           | _ \<Rightarrow> Status400 (str ''Connection and SQL query are required'')))"

section \<open>Inputs of the examples\<close>

definition plan_95_5 :: "ExplainPlanResult list" where
  "plan_95_5 = [\<lparr> Plan = Some (ExplainPlanNode (Some (str ''Index Scan'')) None None None None
       (Some 95) (Some 5) None None None), Execution_Time = None, Planning_Time = None \<rparr>]"

definition timeoutError :: Thrown where
  "timeoutError = \<lparr> instanceofQueryError = False, instanceofTimeoutError = True,
                     isDatabaseError = True \<rparr>"

definition mysqlBody :: Body where
  "mysqlBody = \<lparr> connection = Some \<lparr> dbType = str ''mysql'' \<rparr>,
                 body_sql = Some (str ''SELECT * FROM orders'') \<rparr>"


section \<open>Rounding to a double\<close>

text \<open>
  The rounding is monotone, it leaves the natural numbers below \<open>2^53\<close> as they are, and
  on an argument whose binary exponent is known it is computed by \<open>fl_eval_small\<close>.
\<close>

lemma roundEven_int [simp]: "roundEven (of_int n) = n"
  by (simp add: roundEven_def)

lemma roundEven_bounds: "\<lfloor>x\<rfloor> \<le> roundEven x \<and> roundEven x \<le> \<lfloor>x\<rfloor> + 1"
  by (simp add: roundEven_def Let_def)

lemma roundEven_mono:
  assumes "x \<le> y"
  shows "roundEven x \<le> roundEven y"
proof (cases "\<lfloor>x\<rfloor> = \<lfloor>y\<rfloor>")
  case True
  with assms have "x - of_int \<lfloor>x\<rfloor> \<le> y - of_int \<lfloor>y\<rfloor>" by simp
  with True show ?thesis by (auto simp: roundEven_def Let_def)
next
  case False
  with assms have "\<lfloor>x\<rfloor> < \<lfloor>y\<rfloor>" using floor_mono [OF assms] by linarith
  with roundEven_bounds [of x] roundEven_bounds [of y] show ?thesis by linarith
qed

lemma expo_bounds: "0 < x \<Longrightarrow> 2 powi expo x \<le> x \<and> x < 2 powi (expo x + 1)"
proof (induction x rule: expo.induct)
  case (1 x)
  show ?case
  proof (cases "2 \<le> x")
    case True
    with 1 have e: "expo x = expo (x / 2) + 1" by (subst expo.simps) simp
    from 1 True have "2 powi expo (x / 2) \<le> x / 2 \<and> x / 2 < 2 powi (expo (x / 2) + 1)" by simp
    then show ?thesis unfolding e by (simp add: power_int_add field_simps)
  next
    case False
    show ?thesis
    proof (cases "x < 1")
      case True
      with 1 False have e: "expo x = expo (x * 2) - 1" by (subst expo.simps) simp
      from 1 True False have "2 powi expo (x * 2) \<le> x * 2 \<and> x * 2 < 2 powi (expo (x * 2) + 1)"
        by simp
      then show ?thesis unfolding e by (simp add: power_int_add power_int_diff field_simps)
    next
      case False
      with \<open>\<not> 2 \<le> x\<close> 1 have "expo x = 0" by (subst expo.simps) simp
      with False \<open>\<not> 2 \<le> x\<close> show ?thesis by simp
    qed
  qed
qed

lemma powi_less_cancel:
  assumes "(2::real) powi a < 2 powi b"
  shows "a < b"
proof (rule ccontr)
  assume "\<not> a < b"
  then have "b \<le> a" by simp
  from power_int_increasing [OF this, of "2::real"] assms show False by simp
qed

lemma expo_unique:
  assumes "2 powi k \<le> x" and "x < 2 powi (k + 1)"
  shows "expo x = k"
proof -
  have "(0::real) < 2 powi k" by simp
  with assms(1) have pos: "0 < x" by linarith
  from expo_bounds [OF pos] assms have a: "(2::real) powi expo x < 2 powi (k + 1)"
    and b: "(2::real) powi k < 2 powi (expo x + 1)" by linarith+
  from powi_less_cancel [OF a] powi_less_cancel [OF b]
  have "expo x < k + 1" "k < expo x + 1" .
  then show ?thesis by linarith
qed

lemma fl_eval:
  assumes "2 powi k \<le> \<bar>x\<bar>" and "\<bar>x\<bar> < 2 powi (k + 1)" and "- 1022 \<le> k"
  shows "fl x = of_int (roundEven (x / 2 powi (k - 52))) * 2 powi (k - 52)"
proof -
  have "(0::real) < 2 powi k" by simp
  with assms(1) have "0 < \<bar>x\<bar>" by linarith
  then have "x \<noteq> 0" by simp
  from expo_unique [OF assms(1,2)] assms(3)
  have e: "max (expo \<bar>x\<bar> - 52) (- 1074) = k - 52" by linarith
  from \<open>x \<noteq> 0\<close> show ?thesis
    unfolding fl_def by (simp only: if_False Let_def e)
qed

lemma powi_int: "0 \<le> d \<Longrightarrow> (2::real) powi d = of_int (2 ^ nat d)"
  by (simp add: power_int_def)

lemma fl_pos:
  assumes "0 < x"
  shows "fl x = of_int (roundEven (x / 2 powi max (expo x - 52) (- 1074)))
           * 2 powi max (expo x - 52) (- 1074)"
  using assms by (simp add: fl_def Let_def)

lemma scaled_round_le:
  assumes "0 < s" and "a \<le> b"
  shows "real_of_int (roundEven (a / s)) * s \<le> real_of_int (roundEven (b / s)) * s"
proof -
  from assms have "a / s \<le> b / s" by (simp add: divide_right_mono)
  then have "roundEven (a / s) \<le> roundEven (b / s)" by (rule roundEven_mono)
  then have "real_of_int (roundEven (a / s)) \<le> real_of_int (roundEven (b / s))"
    by (simp only: of_int_le_iff)
  with assms(1) show ?thesis by (simp add: mult_right_mono)
qed

lemma scaled_round_grid:
  assumes "0 < s"
  shows "real_of_int (roundEven (real_of_int N * s / s)) * s = real_of_int N * s"
proof -
  from assms have "real_of_int N * s / s = real_of_int N" by simp
  then show ?thesis by (simp only: roundEven_int)
qed

lemma powi_grid:
  assumes "e \<le> m"
  shows "(2::real) powi m = real_of_int (2 ^ nat (m - e)) * 2 powi e"
proof -
  have "(2::real) powi m = 2 powi (m - e) * 2 powi e" by (simp flip: power_int_add)
  also from assms have "(2::real) powi (m - e) = real_of_int (2 ^ nat (m - e))"
    by (intro powi_int) simp
  finally show ?thesis .
qed

lemma fl_upper:
  assumes "0 < x" and "x < 2 powi m" and "max (expo x - 52) (- 1074) \<le> m"
  shows "fl x \<le> 2 powi m"
proof -
  define s :: real where "s = 2 powi max (expo x - 52) (- 1074)"
  have p: "0 < s" unfolding s_def by simp
  have g: "2 powi m = real_of_int (2 ^ nat (m - max (expo x - 52) (- 1074))) * s"
    unfolding s_def by (rule powi_grid [OF assms(3)])
  from assms(2) have "x \<le> 2 powi m" by simp
  from scaled_round_le [OF p this]
  have "real_of_int (roundEven (x / s)) * s \<le> real_of_int (roundEven (2 powi m / s)) * s" .
  also have "\<dots> = 2 powi m"
    unfolding g by (rule scaled_round_grid [OF p])
  finally show ?thesis unfolding fl_pos [OF assms(1)] s_def .
qed

lemma fl_lower:
  assumes "0 < x" and "2 powi m \<le> x" and "max (expo x - 52) (- 1074) \<le> m"
  shows "2 powi m \<le> fl x"
proof -
  define s :: real where "s = 2 powi max (expo x - 52) (- 1074)"
  have p: "0 < s" unfolding s_def by simp
  have g: "2 powi m = real_of_int (2 ^ nat (m - max (expo x - 52) (- 1074))) * s"
    unfolding s_def by (rule powi_grid [OF assms(3)])
  have "2 powi m = real_of_int (roundEven (2 powi m / s)) * s"
    unfolding g by (rule scaled_round_grid [OF p, symmetric])
  also from scaled_round_le [OF p assms(2)]
  have "\<dots> \<le> real_of_int (roundEven (x / s)) * s" .
  finally show ?thesis unfolding fl_pos [OF assms(1)] s_def .
qed

lemma roundEven_0: "roundEven 0 = 0"
  using roundEven_int [of 0] by simp

lemma fl_nonneg:
  assumes "0 \<le> x"
  shows "0 \<le> fl x"
proof (cases "x = 0")
  case True
  then show ?thesis by (simp add: fl_def)
next
  case False
  with assms have pos: "0 < x" by simp
  define s :: real where "s = 2 powi max (expo x - 52) (- 1074)"
  have p: "0 < s" unfolding s_def by simp
  from scaled_round_le [OF p assms] have "0 \<le> real_of_int (roundEven (x / s)) * s"
    by (simp add: roundEven_0)
  then show ?thesis unfolding fl_pos [OF pos] s_def .
qed

lemma expo_mono:
  assumes "0 < x" and "x \<le> y"
  shows "expo x \<le> expo y"
proof -
  from assms have "0 < y" by simp
  from expo_bounds [OF assms(1)] expo_bounds [OF this] assms(2)
  have "(2::real) powi expo x < 2 powi (expo y + 1)" by linarith
  from powi_less_cancel [OF this] show ?thesis by simp
qed

lemma fl_mono:
  assumes "0 \<le> x" and "x \<le> y"
  shows "fl x \<le> fl y"
proof (cases "x = 0")
  case True
  with assms fl_nonneg [of y] show ?thesis by (simp add: fl_def)
next
  case False
  with assms have px: "0 < x" and py: "0 < y" by simp_all
  have k: "expo x \<le> expo y" by (rule expo_mono [OF px assms(2)])
  show ?thesis
  proof (cases "max (expo x - 52) (- 1074) = max (expo y - 52) (- 1074)")
    case True
    have "(0::real) < 2 powi max (expo x - 52) (- 1074)" by simp
    from scaled_round_le [OF this assms(2)]
    show ?thesis unfolding fl_pos [OF px] fl_pos [OF py] True [symmetric] .
  next
    case False
    with k have lt: "expo x < expo y"
      and ey: "max (expo y - 52) (- 1074) \<le> expo y"
      and exy: "max (expo x - 52) (- 1074) \<le> expo y"
      by linarith+
    from expo_bounds [OF px] have "x < 2 powi (expo x + 1)" by simp
    also from lt have "(2::real) powi (expo x + 1) \<le> 2 powi expo y"
      by (intro power_int_increasing) simp_all
    finally have "x < 2 powi expo y" .
    from fl_upper [OF px this exy] have 1: "fl x \<le> 2 powi expo y" .
    from expo_bounds [OF py] have "2 powi expo y \<le> y" by simp
    from fl_lower [OF py this ey] have 2: "2 powi expo y \<le> fl y" .
    from 1 2 show ?thesis by linarith
  qed
qed

lemma fl_of_nat:
  assumes "n < 2 ^ 53"
  shows "fl (real n) = real n"
proof (cases "n = 0")
  case True
  then show ?thesis by (simp add: fl_def)
next
  case False
  let ?x = "real n"
  let ?k = "expo ?x"
  from False have pos: "0 < ?x" by simp
  from False have ge1: "1 \<le> ?x" by simp
  from assms have "real n < real (2 ^ 53)" by (simp only: of_nat_less_iff)
  then have lt: "?x < 2 powi 53" by simp
  from expo_bounds [OF pos] lt have "(2::real) powi ?k < 2 powi 53" by linarith
  from powi_less_cancel [OF this] have k1: "?k \<le> 52" by simp
  from expo_bounds [OF pos] ge1 have "(2::real) powi 0 < 2 powi (?k + 1)" by simp
  from powi_less_cancel [OF this] have k0: "0 \<le> ?k" by simp
  from k0 have e: "max (?k - 52) (- 1074) = ?k - 52" by simp
  define s :: real where "s = 2 powi (?k - 52)"
  define N :: int where "N = int n * 2 ^ nat (52 - ?k)"
  have p: "0 < s" unfolding s_def by simp
  have "(1::real) = 2 powi (52 - ?k) * 2 powi (?k - 52)" by (simp flip: power_int_add)
  also from k1 have "(2::real) powi (52 - ?k) = real_of_int (2 ^ nat (52 - ?k))"
    by (intro powi_int) simp
  finally have "?x = real_of_int N * s"
    unfolding s_def N_def by simp
  with scaled_round_grid [OF p, of N]
  have "real_of_int (roundEven (?x / s)) * s = ?x" by simp
  then show ?thesis unfolding fl_pos [OF pos] e s_def .
qed

lemma fl_numeral: "(numeral k :: nat) < 2 ^ 53 \<Longrightarrow> fl (numeral k) = numeral k"
  using fl_of_nat [of "numeral k"] by simp

lemma fl_0: "fl 0 = 0"
  by (simp add: fl_def)

lemma fl_1: "fl 1 = 1"
  using fl_of_nat [of 1] by simp

lemma fl_eval_small:
  assumes "2 powi k \<le> \<bar>x\<bar>" and "\<bar>x\<bar> < 2 powi (k + 1)" and "- 1022 \<le> k" and "k \<le> 52"
  shows "fl x = of_int (roundEven (x * 2 ^ nat (52 - k))) / 2 ^ nat (52 - k)"
proof -
  from assms(4) have "(2::real) powi (k - 52) = inverse (2 ^ nat (52 - k))"
    by (simp add: power_int_def power_divide inverse_eq_divide)
  with fl_eval [OF assms(1-3)] show ?thesis by (simp add: field_simps)
qed

lemma fl_95: "fl (95 / 100) = 8556839292003942 / 2 ^ 53"
  by (subst fl_eval_small [where k = "- 1"]) (simp_all add: roundEven_def Let_def)

lemma fl_95_100: "fl (8556839292003942 / 2 ^ 53 * 100) = 95"
  by (subst fl_eval_small [where k = 6]) (simp_all add: roundEven_def Let_def)


section \<open>Evaluation by the simplifier\<close>

text \<open>The digits of a numeral: the equation of \<open>toString\<close>, for literal arguments only.\<close>

lemma toString_numeral:
  "toString (numeral k) =
     (if (numeral k :: nat) < 10 then [48 + numeral k]
      else toString (numeral k div 10) @ [48 + numeral k mod 10])"
  by (rule toString.simps)

lemma toString_0: "toString 0 = [48]"
  by (simp add: toString.simps)

lemma toString_1: "toString 1 = [49]" "toString (Suc 0) = [49]"
  by (simp_all add: toString.simps)

lemmas string_eval = str_def isSpace_def isDigit_def isWordChar_def canonicalize_def trim_def
  trimStart_def trimEnd_def endsWith_def parseInt_def toString_numeral toString_0 toString_1
  fl_numeral fl_0 fl_1

lemmas regex_eval = star_def one_def atWord_def exec_def test_def replaceEmpty_def group_def
  leading_def reSELECT_def reINSERT_def reUPDATE_def reDELETE_def reDDL_def reWITH_def
  reAnySELECT_def reTail_def reLimit_def reOffsetOnly_def reStripMySQL_def reStripStandard_def

lemmas limiter_eval = analyzeQuery_def queryType_def applyQueryLimit_def limitClause_def
  orElse_def orDefault_def Let_def

section \<open>Properties of the classifier and the limit rewriter\<close>

text \<open>
  C1, as the source has it. \<^verbatim>\<open>analyzeQuery\<close> matches its patterns against the trimmed raw
  text: nothing strips comments or replaces string literals. For the statement
  \<^verbatim>\<open>SELECT * FROM t WHERE note = 'LIMIT 10 trick' -- LIMIT 999\<close> the pattern for a trailing
  LIMIT clause matches the end of the comment, so the descriptor has \<^verbatim>\<open>hasLimit\<close> true and
  \<^verbatim>\<open>existingLimit\<close> 999. The LIMIT inside the string literal is not matched, because the
  pattern is anchored at the end of the text: the same statement without the comment has
  \<^verbatim>\<open>hasLimit\<close> false. (The code unit 39 is the closing quote of the literal.)
\<close>

theorem comment_limit_is_matched:
  "analyzeQuery (str ''SELECT * FROM t WHERE note = 'LIMIT 10 trick' -- LIMIT 999'')
     = \<lparr> type = SELECT, hasLimit = True, existingLimit = Some 999, hasOffset = False,
         existingOffset = None, hasCTE = False \<rparr>
   \<and> hasLimit (analyzeQuery (str ''SELECT * FROM t WHERE note = 'LIMIT 10 trick'' @ [39]))
       = False"
  by (simp add: string_eval regex_eval limiter_eval)

text \<open>
  C1 as the specification states it (\<^verbatim>\<open>hasLimit == false\<close> for that statement) does not hold.
\<close>

theorem comment_limit_counterexample:
  "hasLimit (analyzeQuery (str ''SELECT * FROM t WHERE note = 'LIMIT 10 trick' -- LIMIT 999''))
     \<noteq> False"
  by (simp add: string_eval regex_eval limiter_eval)

text \<open>
  C2: for a text that is not classified as SELECT, \<^verbatim>\<open>applyQueryLimit\<close> returns the text it
  was given, with \<^verbatim>\<open>wasLimited\<close> false, whatever the limit, the offset and \<^verbatim>\<open>forceLimit\<close> are.
\<close>

theorem non_select_unchanged:
  "type (analyzeQuery s) \<noteq> SELECT \<Longrightarrow>
     sql (applyQueryLimit s limit offset forceLimit) = s
     \<and> wasLimited (applyQueryLimit s limit offset forceLimit) = False"
  by (simp add: applyQueryLimit_def Let_def)

theorem non_select_unchanged_witness:
  "type (analyzeQuery (str ''DELETE FROM t WHERE id = 1'')) \<noteq> SELECT
   \<and> sql (applyQueryLimit (str ''DELETE FROM t WHERE id = 1'') 500 20 True)
       = str ''DELETE FROM t WHERE id = 1''
   \<and> wasLimited (applyQueryLimit (str ''DELETE FROM t WHERE id = 1'') 500 20 True) = False"
proof -
  have h: "type (analyzeQuery (str ''DELETE FROM t WHERE id = 1'')) \<noteq> SELECT"
    by (simp add: string_eval regex_eval limiter_eval)
  from non_select_unchanged [OF h, of 500 20 True] h show ?thesis by simp
qed

text \<open>
  C4 fails on the forced override of a statement that ends in a LIMIT clause and a
  semicolon: the pattern that strips the clause also consumes the semicolon
  (\<^verbatim>\<open>\s*;?\s*$\<close>), so \<^verbatim>\<open>hasSemicolon\<close>, computed afterwards, is false and nothing is put
  back. The statement \<^verbatim>\<open>SELECT * FROM t LIMIT 10;\<close> is rewritten (\<^verbatim>\<open>wasLimited\<close> true) to
  \<^verbatim>\<open>SELECT * FROM t LIMIT 500\<close>, without its semicolon.
\<close>

theorem forced_override_drops_semicolon:
  "applyQueryLimit (str ''SELECT * FROM t LIMIT 10;'') 500 0 True
     = \<lparr> sql = str ''SELECT * FROM t LIMIT 500'', wasLimited = True, originalLimit = Some 10,
         appliedLimit = 500, appliedOffset = 0 \<rparr>"
  by (simp add: string_eval regex_eval limiter_eval)

section \<open>Properties of the plan analyzer and the estimator\<close>

text \<open>
  Two examples of the rounding. The quotient \<^verbatim>\<open>1005 / 1000\<close> is the double just below \<open>1.005\<close>,
  so that \<^verbatim>\<open>formatTime(1005)\<close> is \<^verbatim>\<open>1.00s\<close>; and \<^verbatim>\<open>parseInt\<close> of the digits of \<open>2^53 + 1\<close>,
  which is no double, is \<open>2^53\<close>.
\<close>

lemma fl_1005: "fl (1005 / 1000) = 4526117625507348 / 2 ^ 52"
  by (subst fl_eval_small [where k = 0]) (simp_all add: roundEven_def Let_def)

lemma formatTime_1005: "formatTime 1005 = Some (str ''1.00s'')"
proof -
  have "formatTime 1005 = Some (toFixed 2 (fl (1005 / 1000)) @ str ''s'')"
    by (simp add: formatTime_def jsDivide_def)
  also have "\<dots> = Some (str ''1.00s'')"
    unfolding fl_1005 by (simp add: toFixed_def string_eval)
  finally show ?thesis .
qed

lemma fl_2_53_1: "fl 9007199254740993 = 9007199254740992"
  by (subst fl_eval [where k = 53]) (simp_all add: roundEven_def Let_def)

lemma parseInt_2_53_1: "parseInt (str ''9007199254740993'') = 9007199254740992"
proof -
  have "parseInt (str ''9007199254740993'') = nat \<lfloor>fl 9007199254740993\<rfloor>"
    by (simp add: parseInt_def str_def)
  then show ?thesis unfolding fl_2_53_1 by simp
qed

lemma formatNumber_defined: "\<exists>v. formatNumber x = Some v"
  by (simp add: formatNumber_def jsDivide_def)

lemma formatTime_defined: "\<exists>v. formatTime x = Some v"
  by (simp add: formatTime_def jsDivide_def)

lemma cacheHitInsight_eq:
  "cacheHitInsight h r =
     Some \<lparr> label = str ''Cache Hit Rate'',
            shown = (if h + r > 0
                     then toFixed 1 (fl (fl (real h / real (h + r)) * 100)) @ str ''%''
                     else str ''N/A''),
            status = (if fl (real h / real (if h + r = 0 then 1 else h + r)) > fl (95 / 100)
                      then Good else Warning) \<rparr>"
  by (simp add: cacheHitInsight_def jsDivide_def orElse_def)

lemma executionInsight_defined: "\<exists>v. executionInsight x = Some v"
  using formatTime_defined [of x] by (auto simp: executionInsight_def)

lemma fold_bind_defined:
  "(\<And>c t. c \<in> set cs \<Longrightarrow> \<exists>t'. f c t = Some t') \<Longrightarrow>
     \<exists>t'. fold (\<lambda>c acc. Option.bind acc (f c)) cs (Some t) = Some t'"
proof (induction cs arbitrary: t)
  case Nil
  then show ?case by simp
next
  case (Cons c cs)
  from Cons.prems [of c t] obtain t1 where t1: "f c t = Some t1" by auto
  have "\<exists>t'. fold (\<lambda>c acc. Option.bind acc (f c)) cs (Some t1) = Some t'"
    by (rule Cons.IH) (use Cons.prems in auto)
  with t1 show ?case by simp
qed

lemma bind_defined:
  "\<exists>v. m = Some v \<Longrightarrow> (\<And>v. \<exists>w. f v = Some w) \<Longrightarrow> \<exists>w. Option.bind m f = Some w"
  by auto

lemma if_defined:
  "(c \<Longrightarrow> \<exists>v. a = Some v) \<Longrightarrow> \<exists>v. (if c then a else Some b) = Some v"
  by auto

lemma analyzeNodeBody_defined: "\<exists>t'. analyzeNodeBody n t = Some t'"
  unfolding analyzeNodeBody_def Let_def
  by (intro bind_defined if_defined formatNumber_defined formatTime_defined
        exI [of "\<lambda>v. Some x = Some v" for x] refl)
     (simp_all add: jsDivide_def)

lemma analyzeNode_defined: "\<exists>t'. analyzeNode n t = Some t'"
proof (induction n arbitrary: t rule: measure_induct_rule [of size])
  case (less n)
  obtain t1 where t1: "analyzeNodeBody n t = Some t1"
    using analyzeNodeBody_defined by blast
  have "\<exists>t'. fold (\<lambda>c acc. Option.bind acc (analyzeNode c)) (children n) (Some t1) = Some t'"
    by (rule fold_bind_defined) (use less.IH size_children in blast)
  with t1 show ?case by (simp add: analyzeNode.simps)
qed

lemma executionInsight_not_None: "executionInsight x \<noteq> None"
  using executionInsight_defined [of x] by auto

lemma analyzeNode_not_None: "analyzeNode n t \<noteq> None"
  using analyzeNode_defined [of n t] by auto

lemma analyzePlan_defined: "\<exists>a. analyzePlan plan = Some a"
  unfolding analyzePlan_def Let_def
  by (simp add: cacheHitInsight_eq executionInsight_not_None analyzeNode_not_None
        analyzeNode_defined split: bind_splits option.splits)

text \<open>
  The literal \<^verbatim>\<open>0.95\<close> is the double \<open>8556839292003942 / 2^53\<close>, just below 95 percent, and
  the next double is above 95 percent. A quotient of two counts that is above 95 percent
  is above it by at least one part in twenty times the denominator, so up to a
  denominator of \<open>2^49\<close> the rounded quotient exceeds the literal exactly when the counts
  do.
\<close>

lemma fl_95_next: "fl (8556839292003943 / 2 ^ 53) = 8556839292003943 / 2 ^ 53"
  by (subst fl_eval_small [where k = "- 1"]) (simp_all add: roundEven_def Let_def)

lemma above_95:
  fixes h d :: nat
  assumes "95 * d < 100 * h" and "d \<le> 2 ^ 49"
  shows "8556839292003943 * d \<le> 9007199254740992 * h"
proof -
  from assms(2) have "12 * d \<le> 9007199254740992" by simp
  moreover from assms(1) have "19 * d + 1 \<le> 20 * h" by simp
  ultimately show ?thesis by linarith
qed

lemma cache_status_iff:
  assumes "h + r \<le> 2 ^ 49"
  shows "fl (real h / real (if h + r = 0 then 1 else h + r)) > fl (95 / 100)
           \<longleftrightarrow> 100 * h > 95 * (h + r)"
proof (cases "h + r = 0")
  case True
  have "\<not> fl (95 / 100) < fl 0"
    unfolding fl_95 by (simp add: fl_0)
  with True show ?thesis by simp
next
  case False
  then have eq: "(if h + r = 0 then 1 else h + r) = h + r" by simp
  from False have "0 < h + r" by simp
  then have pos: "0 < real (h + r)" by (simp only: of_nat_0_less_iff)
  show ?thesis
  proof (cases "95 * (h + r) < 100 * h")
    case True
    from above_95 [OF True assms]
    have "real (8556839292003943 * (h + r)) \<le> real (9007199254740992 * h)"
      by (simp only: of_nat_le_iff)
    then have "8556839292003943 * real (h + r) \<le> 9007199254740992 * real h" by simp
    then have "8556839292003943 / 2 ^ 53 \<le> real h / real (h + r)"
      using pos by (simp add: field_simps)
    then have "fl (8556839292003943 / 2 ^ 53) \<le> fl (real h / real (h + r))"
      by (intro fl_mono) simp_all
    then have "8556839292003942 / 2 ^ 53 < fl (real h / real (h + r))"
      unfolding fl_95_next by simp
    then have "fl (95 / 100) < fl (real h / real (h + r))"
      by (simp only: fl_95)
    with True show ?thesis unfolding eq by blast
  next
    case not: False
    then have "100 * h \<le> 95 * (h + r)" by simp
    then have "real (100 * h) \<le> real (95 * (h + r))" by (simp only: of_nat_le_iff)
    then have "100 * real h \<le> 95 * real (h + r)" by simp
    then have "real h / real (h + r) \<le> 95 / 100" using pos by (simp add: field_simps)
    then have "fl (real h / real (h + r)) \<le> fl (95 / 100)"
      by (intro fl_mono) simp_all
    then have "\<not> fl (95 / 100) < fl (real h / real (h + r))"
      by (simp only: not_less)
    with not show ?thesis unfolding eq by blast
  qed
qed

lemma analyzePlan_insights:
  "analyzePlan plan = Some a \<Longrightarrow>
     \<exists>i3. insights a = [the (cacheHitInsight (bufferHits a) (bufferReads a)),
                        operationsInsight (nodeCount a), i3]
          \<and> executionInsight (executionTime a) = Some i3"
  unfolding analyzePlan_def Let_def
  by (auto simp: cacheHitInsight_eq split: bind_splits option.splits)

lemma analyzeNode_leaf: "Plans n = None \<Longrightarrow> analyzeNode n t = analyzeNodeBody n t"
  by (simp add: analyzeNode.simps children_def)

lemmas plan_eval = analyzePlan_def firstResult_def rootPlanOf_def analyzeNode_leaf
  analyzeNodeBody_def children_def cacheHitInsight_def operationsInsight_def
  executionInsight_def formatNumber_def formatTime_def jsDivide_def orElse_def orDefault_def
  orString_def push_def toFixed_def Let_def

text \<open>
  C5, as the source has it. The first insight is the cache-hit rate. Its text is \<^verbatim>\<open>N/A\<close>
  when both counts are zero, and otherwise the percentage that the source computes in
  doubles, \<^verbatim>\<open>((bufferHits / (bufferHits + bufferReads)) * 100).toFixed(1)\<close>, followed by a
  percent sign. Its status is Good if and only if the hits are strictly more than 95
  percent of the hits and reads together (\<^verbatim>\<open>> 0.95\<close>), else Warning; this holds as long as
  hits and reads together are at most \<open>2^49\<close>, where the rounded quotient and the
  rounded literal compare as the exact ones do. With 95 hits and 5 reads the text is
  \<^verbatim>\<open>95.0%\<close> and the status is Warning.
\<close>

theorem cache_hit_insight:
  "analyzePlan plan = Some a \<Longrightarrow> bufferHits a + bufferReads a \<le> 2 ^ 49 \<Longrightarrow>
     insights a ! 0 =
       \<lparr> label = str ''Cache Hit Rate'',
         shown = (if bufferHits a + bufferReads a > 0
                  then toFixed 1
                         (fl (fl (real (bufferHits a) / real (bufferHits a + bufferReads a))
                              * 100))
                       @ str ''%''
                  else str ''N/A''),
         status = (if 100 * bufferHits a > 95 * (bufferHits a + bufferReads a)
                   then Good else Warning) \<rparr>"
proof -
  assume a: "analyzePlan plan = Some a" and b: "bufferHits a + bufferReads a \<le> 2 ^ 49"
  from analyzePlan_insights [OF a]
  have "insights a ! 0 = the (cacheHitInsight (bufferHits a) (bufferReads a))" by auto
  then show ?thesis
    unfolding cacheHitInsight_eq cache_status_iff [OF b] by simp
qed

lemma plan_95_5_eval:
  "\<exists>a. analyzePlan plan_95_5 = Some a \<and> bufferHits a = 95 \<and> bufferReads a = 5"
  by (simp add: plan_95_5_def plan_eval string_eval)

lemma percent_95_5: "fl (fl (real 95 / real (95 + 5)) * 100) = 95"
proof -
  have "real 95 / real (95 + 5) = 95 / 100" by simp
  then show ?thesis by (simp only: fl_95 fl_95_100)
qed

theorem cache_hit_insight_witness:
  "\<exists>a. analyzePlan plan_95_5 = Some a \<and> bufferHits a = 95 \<and> bufferReads a = 5
     \<and> bufferHits a + bufferReads a \<le> 2 ^ 49
     \<and> insights a ! 0 = \<lparr> label = str ''Cache Hit Rate'', shown = str ''95.0%'', status = Warning \<rparr>"
proof -
  from plan_95_5_eval obtain a where a: "analyzePlan plan_95_5 = Some a"
    "bufferHits a = 95" "bufferReads a = 5" by blast
  have b: "bufferHits a + bufferReads a \<le> 2 ^ 49" unfolding a(2) a(3) by simp
  have "insights a ! 0 =
       \<lparr> label = str ''Cache Hit Rate'',
         shown = (if (95::nat) + 5 > 0
                  then toFixed 1 (fl (fl (real 95 / real (95 + 5)) * 100)) @ str ''%''
                  else str ''N/A''),
         status = (if 100 * (95::nat) > 95 * (95 + 5) then Good else Warning) \<rparr>"
    using cache_hit_insight [OF a(1) b] unfolding a(2) a(3) .
  then have "insights a ! 0 =
      \<lparr> label = str ''Cache Hit Rate'', shown = str ''95.0%'', status = Warning \<rparr>"
    unfolding percent_95_5 by (simp add: toFixed_def string_eval)
  with a b show ?thesis by blast
qed

text \<open>
  The percentage is the one of the doubles: with 23 hits and 57 reads the quotient
  \<open>0.2875\<close> is rounded down, its product with 100 is the double just below \<open>28.75\<close>, and the
  text is \<^verbatim>\<open>28.7%\<close>.
\<close>

lemma percent_23_57:
  "toFixed 1 (fl (fl (real 23 / real (23 + 57)) * 100)) = str ''28.7''"
proof -
  have 1: "fl (23 / 80) = 5179139571476070 / 2 ^ 54"
    by (subst fl_eval_small [where k = "- 2"]) (simp_all add: roundEven_def Let_def)
  have 2: "fl (5179139571476070 / 2 ^ 54 * 100) = 8092405580431359 / 2 ^ 48"
    by (subst fl_eval_small [where k = 4]) (simp_all add: roundEven_def Let_def)
  have "real 23 / real (23 + 57) = 23 / 80" by simp
  then have e: "fl (fl (real 23 / real (23 + 57)) * 100) = 8092405580431359 / 2 ^ 48"
    by (simp only: 1 2)
  show ?thesis unfolding e by (simp add: toFixed_def string_eval)
qed

text \<open>
  C5 as the specification states it (Good at exactly 95 percent) does not hold: with 95
  hits and 5 reads the status is not Good.
\<close>

theorem cache_hit_95_counterexample:
  "map_option (\<lambda>a. status (insights a ! 0)) (analyzePlan plan_95_5) \<noteq> Some Good"
  by (simp add: plan_95_5_def plan_eval string_eval)















text \<open>
  C9: no division of the plan analyzer meets a zero denominator. \<open>analyzePlan\<close> and
  \<open>analyzeNode\<close> return a result for every input (\<open>None\<close> would be a division by zero),
  and with zero buffer hits and zero buffer reads the cache-hit insight is the sentinel
  \<^verbatim>\<open>N/A\<close> with status Warning.
\<close>

theorem divisions_guarded:
  "(\<exists>a. analyzePlan plan = Some a)
   \<and> (\<exists>t'. analyzeNode n t = Some t')
   \<and> cacheHitInsight 0 0
       = Some \<lparr> label = str ''Cache Hit Rate'', shown = str ''N/A'', status = Warning \<rparr>"
  using analyzePlan_defined [of plan] analyzeNode_defined [of n t] fl_nonneg [of "95 / 100"]
  by (simp add: cacheHitInsight_eq fl_0)

lemma catch_zero:
  "\<exists>d. catch e = Json \<lparr> estimatedRows = 0, isLargeResult = False, warning = None, error = d \<rparr>"
  by (simp add: catch_def)

text \<open>
  C7: when the delegated \<^verbatim>\<open>EXPLAIN\<close> call of the estimator throws, whatever it throws, the
  handler returns the response of its \<^verbatim>\<open>catch\<close> block: \<^verbatim>\<open>estimatedRows\<close> 0, \<^verbatim>\<open>isLargeResult\<close>
  false, no warning, and at most a diagnostic string. Nothing is thrown to the caller.
\<close>

theorem explain_failure_is_caught:
  assumes "connection body = Some conn" and "body_sql body = Some query" and "query \<noteq> []"
    and "isSelectQuery query"
    and "getOrCreateProvider conn = Inr provider"
    and "(dbType conn = str ''postgres''
            \<and> provider (str ''EXPLAIN (FORMAT JSON) '' @ query) = Inl e)
         \<or> (dbType conn = str ''mysql'' \<and> provider (str ''EXPLAIN '' @ query) = Inl e)"
  shows "POST getOrCreateProvider (Inr body) = catch e
         \<and> (\<exists>d. POST getOrCreateProvider (Inr body)
                = Json \<lparr> estimatedRows = 0, isLargeResult = False, warning = None,
                         error = d \<rparr>)"
proof -
  have "estimateRows (dbType conn) provider query = Inl e"
    using assms(6) by (auto simp: estimateRows_def str_def)
  with assms(1-5) have "POST getOrCreateProvider (Inr body) = catch e"
    by (simp add: POST_def)
  with catch_zero [of e] show ?thesis by simp
qed

lemma select_orders: "isSelectQuery (str ''SELECT * FROM orders'')"
  by (simp add: isSelectQuery_def string_eval regex_eval limiter_eval)

theorem explain_failure_is_caught_witness:
  "POST (\<lambda>c. Inr (\<lambda>q. Inl timeoutError)) (Inr mysqlBody)
     = Json \<lparr> estimatedRows = 0, isLargeResult = False, warning = None,
              error = Some (str ''Estimate timed out'') \<rparr>"
proof -
  have "POST (\<lambda>c. Inr (\<lambda>q. Inl timeoutError)) (Inr mysqlBody) = catch timeoutError"
    using explain_failure_is_caught [of mysqlBody "\<lparr> dbType = str ''mysql'' \<rparr>"
        "str ''SELECT * FROM orders''" "\<lambda>c. Inr (\<lambda>q. Inl timeoutError)"
        "\<lambda>q. Inl timeoutError" timeoutError] select_orders
    by (simp add: mysqlBody_def str_def)
  then show ?thesis by (simp add: catch_def timeoutError_def)
qed









text \<open>
  C10: for a text that is not classified as SELECT, \<^verbatim>\<open>applyQueryLimit\<close> reports
  \<^verbatim>\<open>appliedLimit\<close> 0 and \<^verbatim>\<open>appliedOffset\<close> 0 and leaves \<^verbatim>\<open>originalLimit\<close> unset, whatever
  limit and offset were requested; the requested values are reported only when a SELECT
  statement was rewritten.
\<close>

theorem non_select_reports_zero:
  "(type (analyzeQuery s) \<noteq> SELECT \<longrightarrow>
      appliedLimit (applyQueryLimit s limit offset forceLimit) = 0
      \<and> appliedOffset (applyQueryLimit s limit offset forceLimit) = 0
      \<and> originalLimit (applyQueryLimit s limit offset forceLimit) = None)
   \<and> (wasLimited (applyQueryLimit s limit offset forceLimit) \<longrightarrow>
      type (analyzeQuery s) = SELECT
      \<and> appliedLimit (applyQueryLimit s limit offset forceLimit) = limit
      \<and> appliedOffset (applyQueryLimit s limit offset forceLimit) = offset)"
  by (simp add: applyQueryLimit_def Let_def)

lemma update_not_select: "type (analyzeQuery (str ''UPDATE t SET a = 1'')) \<noteq> SELECT"
  by (simp add: string_eval regex_eval limiter_eval)

lemma select_orders_limited:
  "wasLimited (applyQueryLimit (str ''SELECT * FROM orders'') 500 20 False)"
  by (simp add: string_eval regex_eval limiter_eval)

theorem non_select_reports_zero_witness:
  "type (analyzeQuery (str ''UPDATE t SET a = 1'')) \<noteq> SELECT
   \<and> appliedLimit (applyQueryLimit (str ''UPDATE t SET a = 1'') 500 20 True) = 0
   \<and> appliedOffset (applyQueryLimit (str ''UPDATE t SET a = 1'') 500 20 True) = 0
   \<and> originalLimit (applyQueryLimit (str ''UPDATE t SET a = 1'') 500 20 True) = None
   \<and> wasLimited (applyQueryLimit (str ''SELECT * FROM orders'') 500 20 False)
   \<and> appliedLimit (applyQueryLimit (str ''SELECT * FROM orders'') 500 20 False) = 500
   \<and> appliedOffset (applyQueryLimit (str ''SELECT * FROM orders'') 500 20 False) = 20"
  using non_select_reports_zero [of "str ''UPDATE t SET a = 1''" 500 20 True]
    non_select_reports_zero [of "str ''SELECT * FROM orders''" 500 20 False]
    update_not_select select_orders_limited
  by (simp only: simp_thms)

end
